theory Spec2Isabelle
  imports Main
begin

section \<open>Go library functions used by the driver\<close>

text \<open>
  Byte slices and Go strings are modelled as \<^typ>\<open>string\<close> (a list of 8-bit characters).
  The line terminator of the AT protocol is the two bytes CR LF.
\<close>

definition CR :: char where
  "CR = CHR 0x0D"

definition LF :: char where
  "LF = CHR 0x0A"

definition CRLF :: string where
  "CRLF = [CR, LF]"

text \<open>
  \<open>bytes.HasPrefix\<close> and \<open>bytes.HasSuffix\<close>, written as executable functions.
\<close>

definition HasPrefix :: "string \<Rightarrow> string \<Rightarrow> bool" where
  "HasPrefix s p = (take (length p) s = p)"

definition HasSuffix :: "string \<Rightarrow> string \<Rightarrow> bool" where
  "HasSuffix s p = (length p \<le> length s \<and> drop (length s - length p) s = p)"

text \<open>
  \<open>bytes.SplitN(s, sep, n)\<close> for \<open>n > 0\<close> and \<open>bytes.Split(s, sep)\<close>. Every call
  site of the driver passes a one-byte separator (\<open>","\<close>, \<open>":"\<close> or \<open>"="\<close>), so the
  separator is a single character here. \<open>splitn sep n acc s\<close> cuts \<open>s\<close> at the separator
  while more than one part is still allowed; \<open>acc\<close> holds the bytes of the current
  part in reverse.
\<close>

fun splitn :: "char \<Rightarrow> nat \<Rightarrow> string \<Rightarrow> string \<Rightarrow> string list" where
  "splitn sep n acc [] = [rev acc]"
| "splitn sep n acc (c # cs) =
     (if c = sep \<and> 1 < n then rev acc # splitn sep (n - 1) [] cs
      else splitn sep n (c # acc) cs)"

definition SplitN :: "string \<Rightarrow> char \<Rightarrow> nat \<Rightarrow> string list" where
  "SplitN s sep n = splitn sep n [] s"

fun splitall :: "char \<Rightarrow> string \<Rightarrow> string \<Rightarrow> string list" where
  "splitall sep acc [] = [rev acc]"
| "splitall sep acc (c # cs) =
     (if c = sep then rev acc # splitall sep [] cs
      else splitall sep (c # acc) cs)"

definition Split :: "string \<Rightarrow> char \<Rightarrow> string list" where
  "Split s sep = splitall sep [] s"

text \<open>
  \<open>strconv.Atoi\<close>: an optional sign, then one or more decimal digits, and the value
  has to fit the type \<open>int\<close>; anything else is an error (\<open>None\<close>). The driver is built
  with TinyGo for the 32-bit RP2040 and RP2350, where \<open>int\<close> has 32 bits.
\<close>

definition intSize :: nat where
  "intSize = 32"

definition digit_val :: "char \<Rightarrow> nat option" where
  "digit_val c =
     (if of_char c < (48::nat) \<or> (57::nat) < of_char c then None
      else Some (of_char c - 48))"

fun parse_digits :: "nat \<Rightarrow> string \<Rightarrow> nat option" where
  "parse_digits n [] = Some n"
| "parse_digits n (c # cs) =
     (case digit_val c of
        None \<Rightarrow> None
      | Some v \<Rightarrow> parse_digits (n * 10 + v) cs)"

definition Atoi :: "string \<Rightarrow> int option" where
  "Atoi s =
     (case s of
        [] \<Rightarrow> None
      | c # cs \<Rightarrow>
          (let neg = (c = CHR ''-'');
               ds = (if c = CHR ''-'' \<or> c = CHR ''+'' then cs else s)
           in if ds = [] then None
              else (case parse_digits 0 ds of
                      None \<Rightarrow> None
                    | Some u \<Rightarrow>
                        (let v = (if neg then - int u else int u)
                         in if - (2 ^ (intSize - 1)) \<le> v \<and> v < 2 ^ (intSize - 1)
                            then Some v else None))))"

text \<open>
  \<open>fmt.Sprintf("%d", n)\<close> for a length (a non-negative number): its decimal digits.
\<close>

fun Itoa :: "nat \<Rightarrow> string" where
  "Itoa n =
     (if n < 10 then [''0123456789'' ! n]
      else Itoa (n div 10) @ [''0123456789'' ! (n mod 10)])"

section \<open>Error catalog\<close>

text \<open>
  The table \<open>errStrings\<close> of the driver, a Go \<open>map[int]string\<close>, as an association list
  with the source's entries in the source's order.
\<close>

definition errStrings :: "(int \<times> string) list" where
  "errStrings =
    [(0, ''success''),
     (1, ''The command is not supported (the combo framework contains the command but the current platform has not transplanted or adapted to support it)''),
     (2, ''The command parameters contain unsupported operations (the current platform only supports some operations for this command)''),
     (3, ''The instruction format is incorrect (this refers to the wrong number of parameters, for example, two parameters are required, but only one parameter is entered)''),
     (4, ''Parameter error (the content of the parameter is wrong, for example, a number between 0 and 9 is required, but 10 or xyz is passed in, which is a parameter error)''),
     (5, ''Parameter length error (command length exceeds the maximum supported length)''),
     (31, ''The current command has not ended and needs to report the status asynchronously. This value is used by the state machine to determine the use of the command and no message is returned.''),
     (32, ''Unknown error (or unhandled error type)''),
     (33, ''malloc error''),
     (34, ''Failed to read buf''),
     (35, ''Failed to write buf''),
     (36, ''Configuration error (configuration error loaded from memory, for example, we set port -1 for OTA upgrade, and check port error when executing AT+OTA, then configuration error will be reported)''),
     (37, ''Failed to create task''),
     (38, ''Flash read and write failure''),
     (39, ''Serial port configuration error, unsupported baud rate''),
     (40, ''Serial port configuration error, unsupported data bits''),
     (41, ''Serial port configuration error, unsupported stop bit''),
     (42, ''Serial port configuration error, unsupported parity bit''),
     (43, ''Serial port configuration error, unsupported flow control''),
     (44, ''Serial port configuration failed''),
     (45, ''Wrong username/password''),
     (46, ''Low power mode error or unsupported low power mode''),
     (47, ''Uninitialized configuration data error (including io mapping data)''),
     (63, ''General error code (without other information)''),
     (64, ''Wi-Fi not initialized or initialization failed''),
     (65, ''Wi-Fi mode error (unable to connect to Wi-Fi in single AP mode)''),
     (66, ''Wi-Fi connection failed''),
     (67, ''Wi-Fi connection successful, error in obtaining IP (DHCP)''),
     (68, ''Failed to obtain encryption method''),
     (69, ''The specified AP was not found.''),
     (70, ''Wi-Fi scan start failed''),
     (71, ''Wi-Fi scan timeout''),
     (72, ''Failed to enable AP hotspot''),
     (73, ''Failed to obtain the Wi-Fi information of the router or the AP information that you enabled yourself''),
     (74, ''The network card (STA/AP) is not running''),
     (75, ''Wi-Fi country code error (unsupported Wi-Fi country code)''),
     (76, ''The current network configuration mode is wrong.''),
     (95, ''Wi-Fi connection unknown error''),
     (96, ''Failed to create socket''),
     (97, ''Socket connection failed''),
     (98, ''DNS Failure''),
     (99, ''The socket status is wrong (for example, TCP is not connected yet)''),
     (100, ''Socket type error''),
     (101, ''Socket send failed''),
     (102, ''Socket receive failed''),
     (103, ''Socket monitoring thread creation failed''),
     (104, ''Socket bind error''),
     (105, ''The current connection cannot be transparently linked (wrong socket type or number)''),
     (106, ''PING test failed (all packets lost)''),
     (107, ''Wi-Fi country code error (unsupported Wi-Fi country code)''),
     (108, ''SSL Config Error''),
     (109, ''SSL verification error (usually caused by unsupported SSL encryption type or certificate error)''),
     (127, ''Unknown socket error'')]"

text \<open>
  Indexing a Go map with a key it does not hold yields the zero value of the element
  type, here the empty string.
\<close>

definition errStrings_index :: "int \<Rightarrow> string" where
  "errStrings_index code =
     (case map_of errStrings code of None \<Rightarrow> [] | Some s \<Rightarrow> s)"

text \<open>
  \<open>getErrStr\<close>: the result starts as the "can't parse" message and is overwritten by the
  table entry when the line has a second \<open>:\<close>-separated token that \<open>Atoi\<close> accepts.
\<close>

definition getErrStr :: "string \<Rightarrow> string" where
  "getErrStr errLine =
     (let tokens = Split errLine (CHR '':'')
      in if 1 < length tokens
         then (case Atoi (tokens ! 1) of
                 None \<Rightarrow> ''Can't parse ERROR response''
               | Some errCode \<Rightarrow> errStrings_index errCode)
         else ''Can't parse ERROR response'')"

section \<open>Data model\<close>

text \<open>
  A Go channel of byte slices (\<open>chan []byte\<close>): the chunks it holds, oldest first, and
  whether it has been closed. Every \<open>rx\<close> channel is made with capacity 10.
\<close>

record chan =
  queue :: "string list"
  closed :: bool

definition rx_capacity :: nat where
  "rx_capacity = 10"

text \<open>
  The struct \<open>socket\<close>. The field \<open>id\<close> is named \<open>id_str\<close> here; \<open>laddr\<close> is an address
  and a port.
\<close>

record socket =
  protocol :: int
  id_str :: string
  rx :: chan
  remainder :: string
  laddr :: "string \<times> nat"

text \<open>
  The part of the struct \<open>device\<close> that the parser and the socket calls read and write:
  the parse buffer \<open>buf\<close> (an array of 1500 bytes) with its fill position \<open>pos\<close> (an
  \<open>int\<close> that is never negative), the last plain line (\<open>last\<close> in the source) and the
  table of eight socket pointers, where \<open>None\<close> is the nil pointer. Each slot points to a
  socket of its own, so the table holds the sockets themselves. The UART and the
  channels \<open>ok\<close>, \<open>txReady\<close> and \<open>err\<close> appear as effects and as the transport below; the
  addresses \<open>mac\<close>, \<open>ip\<close> and \<open>gateway\<close> play no part in what follows.
\<close>

record device =
  buf :: string
  pos :: nat
  last_line :: string
  sockets :: "socket option list"

definition buf_size :: nat where
  "buf_size = 1500"

definition num_sockets :: nat where
  "num_sockets = 8"

text \<open>The state that \<open>NewDevice\<close> returns: a zeroed buffer and eight nil slots.\<close>

definition NewDevice :: device where
  "NewDevice =
     \<lparr>buf = replicate buf_size (CHR 0x00), pos = 0, last_line = [],
      sockets = replicate num_sockets None\<rparr>"

text \<open>
  What the reader task does to the outside: a value sent on one of the unbuffered
  channels \<open>ok\<close>, \<open>txReady\<close> and \<open>err\<close>, a chunk sent on the \<open>rx\<close> channel of the socket in a
  slot, the close of such a channel, and a printed line.
\<close>

datatype signal = SigOk | SigTxReady | SigErr string

datatype effect =
    Signal signal
  | RxSend nat string
  | RxClose nat
  | Print string

text \<open>
  A call returns, or the Go runtime panics, or the call blocks on a channel with nobody
  to serve it.
\<close>

datatype panic =
    NilDereference
  | SendOnClosedChannel
  | CloseOfClosedChannel
  | IndexOutOfRange
  | NonPositiveTicker

datatype 'a outcome = Done 'a | Panics panic | Blocks

section \<open>Line and frame parser\<close>

text \<open>
  \<open>split\<close>: the part with index \<open>part\<close> of \<open>resp\<close> cut at \<open>del\<close>, or a message when there
  are too few parts.
\<close>

definition split :: "string \<Rightarrow> nat \<Rightarrow> char \<Rightarrow> string \<Rightarrow> string" where
  "split resp part del on =
     (let parts = Split resp del
      in if length parts \<le> part then ''Split parts error getting '' @ on
         else parts ! part)"

text \<open>
  \<open>findSocket\<close> walks the table in slot order and reads \<open>s.id\<close> of every entry without
  a nil check: reading it through a nil pointer panics. The result is the slot of the
  first socket with that id, or \<open>None\<close> for the "Socket not found" error.
\<close>

fun findSocket_from :: "nat \<Rightarrow> socket option list \<Rightarrow> string \<Rightarrow> nat option outcome" where
  "findSocket_from i [] ident = Done None"
| "findSocket_from i (None # ss) ident = Panics NilDereference"
| "findSocket_from i (Some s # ss) ident =
     (if id_str s = ident then Done (Some i) else findSocket_from (Suc i) ss ident)"

definition findSocket :: "device \<Rightarrow> string \<Rightarrow> nat option outcome" where
  "findSocket d ident = findSocket_from 0 (sockets d) ident"

text \<open>
  Operations on the \<open>rx\<close> channel of the socket in slot \<open>i\<close>. A send panics on a closed
  channel and blocks while the channel holds \<open>rx_capacity\<close> chunks; a close panics on a
  closed channel.
\<close>

definition set_rx :: "nat \<Rightarrow> chan \<Rightarrow> device \<Rightarrow> device" where
  "set_rx i c d =
     (case sockets d ! i of
        None \<Rightarrow> d
      | Some s \<Rightarrow> d\<lparr>sockets := (sockets d)[i := Some (s\<lparr>rx := c\<rparr>)]\<rparr>)"

definition rx_send :: "nat \<Rightarrow> string \<Rightarrow> device \<Rightarrow> (effect list \<times> device) outcome" where
  "rx_send i data d =
     (case sockets d ! i of
        None \<Rightarrow> Panics NilDereference
      | Some s \<Rightarrow>
          if closed (rx s) then Panics SendOnClosedChannel
          else if rx_capacity \<le> length (queue (rx s)) then Blocks
          else Done ([RxSend i data], set_rx i ((rx s)\<lparr>queue := queue (rx s) @ [data]\<rparr>) d))"

definition rx_close :: "nat \<Rightarrow> device \<Rightarrow> (effect list \<times> device) outcome" where
  "rx_close i d =
     (case sockets d ! i of
        None \<Rightarrow> Panics NilDereference
      | Some s \<Rightarrow>
          if closed (rx s) then Panics CloseOfClosedChannel
          else Done ([RxClose i], set_rx i ((rx s)\<lparr>closed := True\<rparr>) d))"

text \<open>
  \<open>handle\<close>: a \<open>SocketDisconnect\<close> event closes the \<open>rx\<close> channel of the socket found for
  its id and does nothing when there is none; every other event is ignored.
\<close>

definition handle :: "string \<Rightarrow> device \<Rightarrow> (effect list \<times> device) outcome" where
  "handle event d =
     (if HasPrefix event ''SocketDisconnect''
      then (case findSocket d (split event 1 (CHR '','') ''SocketDisconnect'') of
              Panics p \<Rightarrow> Panics p
            | Blocks \<Rightarrow> Blocks
            | Done None \<Rightarrow> Done ([], d)
            | Done (Some i) \<Rightarrow> rx_close i d)
      else Done ([], d))"

text \<open>
  \<open>processUART\<close>, called after every byte stored in the buffer. The ready marker is
  a buffer of the one byte \<open>>\<close>; after it the buffer is empty, so the function returns at
  the terminator test. Everything else waits for a buffer that ends in CR LF, and the
  cases are tried in the order of the source's \<open>switch\<close>.
\<close>

definition socketDown :: "string \<Rightarrow> device \<Rightarrow> (effect list \<times> device) outcome" where
  "socketDown sofar d =
     (let parts = SplitN sofar (CHR '','') 4
      in if length parts \<noteq> 4
         then Done ([Print (''[ERROR] Error parsing +EVENT:SocketDown: '' @ sofar)], d\<lparr>pos := 0\<rparr>)
         else (case Atoi (parts ! 2) of
                 None \<Rightarrow>
                   Done ([Print (''[ERROR] Error parsing length from: '' @ parts ! 2)],
                         d\<lparr>pos := 0\<rparr>)
               | Some len \<Rightarrow>
                   if len \<noteq> int (length (parts ! 3)) then Done ([], d)
                   else (case findSocket d (parts ! 1) of
                           Panics p \<Rightarrow> Panics p
                         | Blocks \<Rightarrow> Blocks
                         | Done None \<Rightarrow>
                             Done ([Print (''[ERROR] Socket not found with id: '' @ parts ! 1)],
                                   d\<lparr>pos := 0\<rparr>)
                         | Done (Some i) \<Rightarrow> rx_send i (parts ! 3) (d\<lparr>pos := 0\<rparr>))))"

definition processLine :: "string \<Rightarrow> device \<Rightarrow> (effect list \<times> device) outcome" where
  "processLine sofar d =
     (if HasPrefix sofar ''+EVENT:SocketDown'' then socketDown sofar d
      else if HasPrefix sofar ''OK'' then Done ([Signal SigOk], d\<lparr>pos := 0\<rparr>)
      else if HasPrefix sofar ''ERROR''
        then Done ([Signal (SigErr (getErrStr (last_line d)))], d\<lparr>pos := 0\<rparr>)
      else if HasPrefix sofar ''+EVENT:''
        then handle (drop (length ''+EVENT:'') sofar) (d\<lparr>pos := 0\<rparr>)
      else if 0 < length sofar then Done ([], d\<lparr>pos := 0, last_line := sofar\<rparr>)
      else Done ([], d\<lparr>pos := 0\<rparr>))"

definition processUART :: "device \<Rightarrow> (effect list \<times> device) outcome" where
  "processUART d =
     (if pos d = 1 \<and> buf d ! 0 = CHR ''>'' then Done ([Signal SigTxReady], d\<lparr>pos := 0\<rparr>)
      else (let sofar = take (pos d) (buf d)
            in if \<not> HasSuffix sofar CRLF then Done ([], d)
               else processLine (take (length sofar - 2) sofar) d))"

text \<open>
  The inner loop of \<open>serviceUART\<close> for one byte waiting in the UART, which \<open>ReadByte\<close>
  then returns without error. With a full buffer
  the loop prints, resets \<open>pos\<close> and breaks with the byte still unread; the enclosing
  endless loop then enters the inner loop again, where the byte is read into the now
  empty buffer. Otherwise the byte is stored at \<open>pos\<close>, \<open>pos\<close> grows by one and
  \<open>processUART\<close> runs.
\<close>

definition bufferFull :: "device \<Rightarrow> effect list \<times> device" where
  "bufferFull d =
     (if length (buf d) \<le> pos d then ([Print ''Trying to write past buffer''], d\<lparr>pos := 0\<rparr>)
      else ([], d))"

definition readByte :: "char \<Rightarrow> device \<Rightarrow> (effect list \<times> device) outcome" where
  "readByte b d = processUART (d\<lparr>buf := (buf d)[pos d := b], pos := pos d + 1\<rparr>)"

definition after :: "effect list \<Rightarrow> (effect list \<times> device) outcome \<Rightarrow> (effect list \<times> device) outcome" where
  "after es r = (case r of Done (es', d) \<Rightarrow> Done (es @ es', d) | Panics p \<Rightarrow> Panics p | Blocks \<Rightarrow> Blocks)"

definition serviceByte :: "char \<Rightarrow> device \<Rightarrow> (effect list \<times> device) outcome" where
  "serviceByte b d = (case bufferFull d of (es, d') \<Rightarrow> after es (readByte b d'))"

text \<open>
  \<open>serviceUART\<close> on the bytes that the UART delivers, in order: the effects of the reader
  task and the state it leaves, up to the first panic or blocked send.
\<close>

fun serviceUART :: "string \<Rightarrow> device \<Rightarrow> (effect list \<times> device) outcome" where
  "serviceUART [] d = Done ([], d)"
| "serviceUART (b # bs) d =
     (case serviceByte b d of
        Done (es, d') \<Rightarrow> after es (serviceUART bs d')
      | Panics p \<Rightarrow> Panics p
      | Blocks \<Rightarrow> Blocks)"

section \<open>Command correlator\<close>

text \<open>
  Error values: the sentinels of the package \<open>netdev\<close>, \<open>io.EOF\<close>, and an error made from
  a text (\<open>errors.New\<close>, or an error of the transport).
\<close>

datatype error =
    ErrFamilyNotSupported
  | ErrProtocolNotSupported
  | ErrNoMoreSockets
  | ErrInvalidSocketFd
  | ErrNotSupported
  | EOF
  | ErrorText string

text \<open>
  The serial transport as the command calls see it. \<open>written\<close> is what has been passed to
  \<open>uart.Write\<close>, one entry for each call. \<open>write_results\<close> scripts the pairs \<open>(n, err)\<close> that
  the next calls of \<open>uart.Write\<close> return; beyond the script a call writes all its bytes
  without error. \<open>arrivals\<close> scripts the waits to come: for each \<open>select\<close>, the first signal
  that the reader task offers after the wait began, with the milliseconds until then,
  or \<open>None\<close> when it offers nothing. The reader offers one signal at a time on an
  unbuffered channel, so a signal that the waiting \<open>select\<close> does not receive keeps the
  reader from offering another one.
\<close>

record transport =
  written :: "string list"
  write_results :: "(nat \<times> error option) list"
  arrivals :: "(nat \<times> signal) option list"

definition uart_Write :: "string \<Rightarrow> transport \<Rightarrow> (nat \<times> error option) \<times> transport" where
  "uart_Write bs w =
     (case write_results w of
        [] \<Rightarrow> ((length bs, None), w\<lparr>written := written w @ [bs]\<rparr>)
      | r # rs \<Rightarrow> (r, w\<lparr>written := written w @ [bs], write_results := rs\<rparr>))"

definition next_arrival :: "transport \<Rightarrow> (nat \<times> signal) option \<times> transport" where
  "next_arrival w =
     (case arrivals w of
        [] \<Rightarrow> (None, w)
      | a # as \<Rightarrow> (a, w\<lparr>arrivals := as\<rparr>))"

text \<open>
  A \<open>select\<close> over a ticker of \<open>timeout\<close> milliseconds and some of the three channels:
  \<open>Ticked\<close> when the ticker fires first, \<open>Received s\<close> when a signal of an awaited
  channel comes first. \<open>time.NewTicker\<close> panics for a duration that is not positive.
\<close>

datatype waited = Ticked | Received signal

definition select_wait ::
    "(signal \<Rightarrow> bool) \<Rightarrow> int \<Rightarrow> (nat \<times> signal) option \<Rightarrow> waited outcome" where
  "select_wait awaited timeout a =
     (if timeout \<le> 0 then Panics NonPositiveTicker
      else (case a of
              None \<Rightarrow> Done Ticked
            | Some (t, s) \<Rightarrow>
                if int t < timeout \<and> awaited s then Done (Received s) else Done Ticked))"

fun on_ok_or_err :: "signal \<Rightarrow> bool" where
  "on_ok_or_err SigOk = True"
| "on_ok_or_err SigTxReady = False"
| "on_ok_or_err (SigErr e) = True"

fun on_txReady_or_err :: "signal \<Rightarrow> bool" where
  "on_txReady_or_err SigOk = False"
| "on_txReady_or_err SigTxReady = True"
| "on_txReady_or_err (SigErr e) = True"

text \<open>The error that a finished wait stands for: none after the awaited success signal.\<close>

fun wait_error :: "waited \<Rightarrow> error option" where
  "wait_error Ticked = Some (ErrorText ''Timed out'')"
| "wait_error (Received (SigErr e)) = Some (ErrorText e)"
| "wait_error (Received s) = None"

text \<open>
  \<open>execute\<close> writes the command and the terminator, returns a write error at once, and
  otherwise waits for \<open>ok\<close>, \<open>err\<close> or the ticker. \<open>send\<close> is the same with \<open>txReady\<close> in the
  place of \<open>ok\<close>.
\<close>

definition command ::
    "(signal \<Rightarrow> bool) \<Rightarrow> string \<Rightarrow> int \<Rightarrow> transport \<Rightarrow> (error option \<times> transport) outcome" where
  "command awaited cmd timeout w =
     (case uart_Write (cmd @ CRLF) w of
        ((n, Some e), w1) \<Rightarrow> Done (Some e, w1)
      | ((n, None), w1) \<Rightarrow>
          (case next_arrival w1 of
             (a, w2) \<Rightarrow>
               (case select_wait awaited timeout a of
                  Panics p \<Rightarrow> Panics p
                | Blocks \<Rightarrow> Blocks
                | Done r \<Rightarrow> Done (wait_error r, w2))))"

definition execute :: "string \<Rightarrow> int \<Rightarrow> transport \<Rightarrow> (error option \<times> transport) outcome" where
  "execute cmd timeout w = command on_ok_or_err cmd timeout w"

definition send :: "string \<Rightarrow> int \<Rightarrow> transport \<Rightarrow> (error option \<times> transport) outcome" where
  "send cmd timeout w = command on_txReady_or_err cmd timeout w"

text \<open>
  What a waiting \<open>select\<close> gets from a run of the reader task that ends \<open>t\<close> milliseconds
  into the wait: the first signal among the effects of the run, if there is one.
\<close>

fun first_signal :: "effect list \<Rightarrow> signal option" where
  "first_signal [] = None"
| "first_signal (Signal s # es) = Some s"
| "first_signal (e # es) = first_signal es"

definition offered :: "nat \<Rightarrow> (effect list \<times> device) outcome \<Rightarrow> (nat \<times> signal) option" where
  "offered t r =
     (case r of
        Done (es, d) \<Rightarrow> (case first_signal es of None \<Rightarrow> None | Some s \<Rightarrow> Some (t, s))
      | Panics p \<Rightarrow> None
      | Blocks \<Rightarrow> None)"

section \<open>Socket registry\<close>

text \<open>
  The constants of the package \<open>netdev\<close> that \<open>Socket\<close> compares its arguments with. They
  are defined outside the driver, so they are parameters here.
\<close>

record netdev =
  AF_INET :: int
  SOCK_STREAM :: int
  SOCK_DGRAM :: int
  IPPROTO_TCP :: int
  IPPROTO_UDP :: int
  IPPROTO_TLS :: int

text \<open>The loop of \<open>Socket\<close> over the table: the first slot that holds nil.\<close>

fun empty_slot :: "nat \<Rightarrow> socket option list \<Rightarrow> nat option" where
  "empty_slot fd [] = None"
| "empty_slot fd (None # ss) = Some fd"
| "empty_slot fd (Some s # ss) = empty_slot (Suc fd) ss"

definition new_socket :: "int \<Rightarrow> socket" where
  "new_socket proto =
     \<lparr>protocol = proto, id_str = [], rx = \<lparr>queue = [], closed = False\<rparr>,
      remainder = [], laddr = ([], 0)\<rparr>"

definition Socket :: "netdev \<Rightarrow> int \<Rightarrow> int \<Rightarrow> int \<Rightarrow> device \<Rightarrow> (int \<times> error option) \<times> device" where
  "Socket nd domain stype proto d =
     (if domain \<noteq> AF_INET nd then ((- 1, Some ErrFamilyNotSupported), d)
      else if \<not> (proto = IPPROTO_TCP nd \<and> stype = SOCK_STREAM nd
                \<or> proto = IPPROTO_TLS nd \<and> stype = SOCK_STREAM nd
                \<or> proto = IPPROTO_UDP nd \<and> stype = SOCK_DGRAM nd)
        then ((- 1, Some ErrProtocolNotSupported), d)
      else (case empty_slot 0 (sockets d) of
              None \<Rightarrow> ((- 1, Some ErrNoMoreSockets), d)
            | Some fd \<Rightarrow>
                ((int fd, None), d\<lparr>sockets := (sockets d)[fd := Some (new_socket proto)]\<rparr>)))"

text \<open>
  \<open>getSocket\<close>. The test \<open>sockfd+1 > len(d.sockets)\<close> adds in the type \<open>int\<close>, where the
  sum wraps around; a descriptor that passes the test and is no index of the array
  panics at the index expression. The result is the slot of the socket.
\<close>

definition wrap_int :: "int \<Rightarrow> int" where
  "wrap_int x = (x + 2 ^ (intSize - 1)) mod 2 ^ intSize - 2 ^ (intSize - 1)"

definition getSocket :: "device \<Rightarrow> int \<Rightarrow> (error + nat) outcome" where
  "getSocket d sockfd =
     (if sockfd < 0 \<or> int num_sockets < wrap_int (sockfd + 1) then Done (Inl ErrInvalidSocketFd)
      else if num_sockets \<le> nat sockfd then Panics IndexOutOfRange
      else (case sockets d ! nat sockfd of
              None \<Rightarrow> Done (Inl ErrInvalidSocketFd)
            | Some s \<Rightarrow> Done (Inr (nat sockfd))))"

definition set_socket :: "nat \<Rightarrow> socket option \<Rightarrow> device \<Rightarrow> device" where
  "set_socket i so d = d\<lparr>sockets := (sockets d)[i := so]\<rparr>"

text \<open>
  The builtin \<open>copy(dst, src)\<close>: the number of bytes copied and the new content of
  \<open>dst\<close>.
\<close>

definition copy_n :: "string \<Rightarrow> string \<Rightarrow> nat" where
  "copy_n dst src = min (length dst) (length src)"

definition copy_to :: "string \<Rightarrow> string \<Rightarrow> string" where
  "copy_to dst src = take (copy_n dst src) src @ drop (copy_n dst src) dst"

text \<open>
  \<open>Recv\<close>: the result \<open>(n, err)\<close>, the caller's buffer afterwards and the new state. A
  receive from an open channel that holds nothing blocks; from a closed one it yields
  the chunks still held and then reports the close.
\<close>

definition Recv ::
    "device \<Rightarrow> int \<Rightarrow> string \<Rightarrow> int \<Rightarrow> int \<Rightarrow> ((nat \<times> error option) \<times> string \<times> device) outcome" where
  "Recv d sockfd b flags deadline =
     (case getSocket d sockfd of
        Panics p \<Rightarrow> Panics p
      | Blocks \<Rightarrow> Blocks
      | Done (Inl e) \<Rightarrow> Done ((0, Some e), b, d)
      | Done (Inr i) \<Rightarrow>
          (case sockets d ! i of
             None \<Rightarrow> Panics NilDereference
           | Some s \<Rightarrow>
               if 0 < length (remainder s)
               then Done ((copy_n b (remainder s), None), copy_to b (remainder s),
                          set_socket i (Some (s\<lparr>remainder := drop (copy_n b (remainder s)) (remainder s)\<rparr>)) d)
               else (case queue (rx s) of
                       [] \<Rightarrow> if closed (rx s) then Done ((0, Some EOF), b, d) else Blocks
                     | data # rest \<Rightarrow>
                         (let s1 = s\<lparr>rx := (rx s)\<lparr>queue := rest\<rparr>\<rparr>;
                              n = copy_n b data;
                              s2 = (if n < length data then s1\<lparr>remainder := drop n data\<rparr> else s1)
                          in Done ((n, None), copy_to b data, set_socket i (Some s2) d)))))"

text \<open>
  \<open>Close\<close>: the delete command goes out only for a socket with an id; when the command
  fails the function returns its error before the slot is cleared.
\<close>

definition Close :: "device \<Rightarrow> int \<Rightarrow> transport \<Rightarrow> (error option \<times> device \<times> transport) outcome" where
  "Close d sockfd w =
     (case getSocket d sockfd of
        Panics p \<Rightarrow> Panics p
      | Blocks \<Rightarrow> Blocks
      | Done (Inl e) \<Rightarrow> Done (Some e, d, w)
      | Done (Inr i) \<Rightarrow>
          (case sockets d ! i of
             None \<Rightarrow> Panics NilDereference
           | Some s \<Rightarrow>
               if id_str s \<noteq> []
               then (case execute (''AT+SOCKETDEL='' @ id_str s) 1000 w of
                       Panics p \<Rightarrow> Panics p
                     | Blocks \<Rightarrow> Blocks
                     | Done (Some e, w') \<Rightarrow> Done (Some e, d, w')
                     | Done (None, w') \<Rightarrow> Done (None, set_socket i None d, w'))
               else Done (None, set_socket i None d, w)))"

text \<open>
  \<open>Send\<close>: the staging command through \<open>send\<close> with a timeout of 1000 ms, then the
  payload, then a wait of 1000 ms for \<open>ok\<close> or \<open>err\<close>. The result is \<open>(n, err)\<close> and the
  transport afterwards; the device state is only read.
\<close>

definition Send ::
    "device \<Rightarrow> int \<Rightarrow> string \<Rightarrow> int \<Rightarrow> int \<Rightarrow> transport \<Rightarrow> ((nat \<times> error option) \<times> transport) outcome" where
  "Send d sockfd b flags deadline w =
     (case getSocket d sockfd of
        Panics p \<Rightarrow> Panics p
      | Blocks \<Rightarrow> Blocks
      | Done (Inl e) \<Rightarrow> Done ((0, Some e), w)
      | Done (Inr i) \<Rightarrow>
          (case sockets d ! i of
             None \<Rightarrow> Panics NilDereference
           | Some s \<Rightarrow>
               (case send (''AT+SOCKETSEND='' @ id_str s @ '','' @ Itoa (length b)) 1000 w of
                  Panics p \<Rightarrow> Panics p
                | Blocks \<Rightarrow> Blocks
                | Done (Some e, w1) \<Rightarrow> Done ((0, Some e), w1)
                | Done (None, w1) \<Rightarrow>
                    (case uart_Write b w1 of
                       ((n, Some e), w2) \<Rightarrow> Done ((0, Some e), w2)
                     | ((n, None), w2) \<Rightarrow>
                         (case next_arrival w2 of
                            (a, w3) \<Rightarrow>
                              (case select_wait on_ok_or_err 1000 a of
                                 Panics p \<Rightarrow> Panics p
                               | Blocks \<Rightarrow> Blocks
                               | Done Ticked \<Rightarrow> Done ((0, Some (ErrorText ''Timed out'')), w3)
                               | Done (Received (SigErr e)) \<Rightarrow> Done ((0, Some (ErrorText e)), w3)
                               | Done (Received s') \<Rightarrow> Done ((n, None), w3)))))))"

section \<open>Scenarios\<close>

text \<open>
  \<open>Socket_repeat\<close> calls \<open>Socket\<close> a number of times with the same arguments and collects
  the results. \<open>valid_args\<close> is the condition under which \<open>Socket\<close> gets past its two
  argument checks.
\<close>

fun Socket_repeat ::
    "netdev \<Rightarrow> int \<Rightarrow> int \<Rightarrow> int \<Rightarrow> nat \<Rightarrow> device \<Rightarrow> (int \<times> error option) list \<times> device" where
  "Socket_repeat nd domain stype proto 0 d = ([], d)"
| "Socket_repeat nd domain stype proto (Suc k) d =
     (case Socket nd domain stype proto d of
        (r, d') \<Rightarrow>
          (case Socket_repeat nd domain stype proto k d' of
             (rs, d'') \<Rightarrow> (r # rs, d'')))"

definition valid_args :: "netdev \<Rightarrow> int \<Rightarrow> int \<Rightarrow> int \<Rightarrow> bool" where
  "valid_args nd domain stype proto =
     (domain = AF_INET nd
      \<and> (proto = IPPROTO_TCP nd \<and> stype = SOCK_STREAM nd
         \<or> proto = IPPROTO_TLS nd \<and> stype = SOCK_STREAM nd
         \<or> proto = IPPROTO_UDP nd \<and> stype = SOCK_DGRAM nd))"

text \<open>Concrete values for the examples: constants, a connected socket, a device, a line.\<close>

definition nd0 :: netdev where
  "nd0 = \<lparr>AF_INET = 2, SOCK_STREAM = 1, SOCK_DGRAM = 2, IPPROTO_TCP = 6, IPPROTO_UDP = 17,
           IPPROTO_TLS = 254\<rparr>"

definition sock_id3 :: socket where
  "sock_id3 = (new_socket 6)\<lparr>id_str := ''3''\<rparr>"

definition dev_one :: device where
  "dev_one = NewDevice\<lparr>sockets := [Some sock_id3, None, None, None, None, None, None, None]\<rparr>"

definition quiet_line :: transport where
  "quiet_line = \<lparr>written = [], write_results = [], arrivals = []\<rparr>"

text \<open>
  \<open>sofar\<close> is the slice \<open>d.buf[:d.pos]\<close> that \<open>processUART\<close> works on: the bytes read since
  the last reset of \<open>pos\<close>. \<open>SocketDown_line\<close> builds the text of a \<open>SocketDown\<close> event
  without its terminator.
\<close>

definition sofar :: "device \<Rightarrow> string" where
  "sofar d = take (pos d) (buf d)"


text \<open>
  A history of a device: runs of the reader task over bytes that arrive, and calls of
  \<open>Recv\<close> with a buffer of a given length. \<open>run\<close> performs them in order and records the
  effects of the reader and, for each \<open>Recv\<close>, the descriptor and the bytes handed to
  the caller (the first \<open>n\<close> bytes of the buffer).
\<close>

datatype call = Reader string | RecvCall int nat

datatype event = Eff effect | Got int string

fun run :: "call list \<Rightarrow> device \<Rightarrow> (event list \<times> device) outcome" where
  "run [] d = Done ([], d)"
| "run (Reader bs # cs) d =
     (case serviceUART bs d of
        Done (es, d') \<Rightarrow>
          (case run cs d' of
             Done (tr, d'') \<Rightarrow> Done (map Eff es @ tr, d'')
           | Panics p \<Rightarrow> Panics p
           | Blocks \<Rightarrow> Blocks)
      | Panics p \<Rightarrow> Panics p
      | Blocks \<Rightarrow> Blocks)"
| "run (RecvCall sockfd n # cs) d =
     (case Recv d sockfd (replicate n (CHR 0x00)) 0 0 of
        Done ((k, err), b, d') \<Rightarrow>
          (case run cs d' of
             Done (tr, d'') \<Rightarrow> Done (Got sockfd (take k b) # tr, d'')
           | Panics p \<Rightarrow> Panics p
           | Blocks \<Rightarrow> Blocks)
      | Panics p \<Rightarrow> Panics p
      | Blocks \<Rightarrow> Blocks)"

text \<open>
  The bytes that a history delivered to the socket in slot \<open>i\<close>, the bytes that \<open>Recv\<close>
  returned for it, and the bytes a socket holds unread: its remainder, then its queued
  chunks.
\<close>

fun delivered_by :: "nat \<Rightarrow> event \<Rightarrow> string" where
  "delivered_by i (Eff (RxSend j data)) = (if j = i then data else [])"
| "delivered_by i e = []"

fun received_by :: "nat \<Rightarrow> event \<Rightarrow> string" where
  "received_by i (Got sockfd bs) = (if sockfd = int i then bs else [])"
| "received_by i e = []"

definition delivered :: "nat \<Rightarrow> event list \<Rightarrow> string" where
  "delivered i tr = concat (map (delivered_by i) tr)"

definition received :: "nat \<Rightarrow> event list \<Rightarrow> string" where
  "received i tr = concat (map (received_by i) tr)"


text \<open>
  What a run of the reader task leaves behind, without the raw bytes of the buffer: the
  effects, \<open>pos\<close>, the last line and the socket table.
\<close>

definition observe ::
    "(effect list \<times> device) outcome \<Rightarrow> (effect list \<times> nat \<times> string \<times> socket option list) outcome" where
  "observe r =
     (case r of
        Done (es, d) \<Rightarrow> Done (es, pos d, last_line d, sockets d)
      | Panics p \<Rightarrow> Panics p
      | Blocks \<Rightarrow> Blocks)"

text \<open>
  \<open>dev_line l\<close> is a new device whose buffer holds the line \<open>l\<close> and its terminator;
  \<open>dev_full\<close> is a new device after 1500 zero bytes, with the buffer full.
\<close>

definition dev_line :: "string \<Rightarrow> device" where
  "dev_line l =
     NewDevice\<lparr>buf := l @ CRLF @ drop (length l + 2) (buf NewDevice), pos := length l + 2\<rparr>"

definition dev_full :: device where
  "dev_full = NewDevice\<lparr>pos := buf_size\<rparr>"



section \<open>Error catalog: decoding\<close>

lemmas getErrStr_eval =
  getErrStr_def Split_def Atoi_def digit_val_def intSize_def errStrings_index_def errStrings_def

text \<open>
  C4, as stated: the error line \<open>ERROR:105\<close> decodes to "Socket bind error". It does not:
  the table gives that text to the code 104.
\<close>

theorem C4_error_105_is_not_bind_error:
  "getErrStr ''ERROR:105'' \<noteq> ''Socket bind error''"
  by (simp add: getErrStr_eval)

text \<open>
  C4, amended: the error line \<open>ERROR:105\<close> decodes to the table entry of the code 105,
  which is "The current connection cannot be transparently linked (wrong socket type or
  number)"; "Socket bind error" is what the line \<open>ERROR:104\<close> decodes to.
\<close>

theorem C4_error_105_decodes_to_catalog_entry:
  "getErrStr ''ERROR:105'' = errStrings_index 105
   \<and> errStrings_index 105
       = ''The current connection cannot be transparently linked (wrong socket type or number)''
   \<and> getErrStr ''ERROR:104'' = ''Socket bind error''"
  by (simp add: getErrStr_eval)

section \<open>Socket registry: allocation\<close>

lemma empty_slot_None: "empty_slot k ss = None \<longleftrightarrow> (\<forall>s \<in> set ss. s \<noteq> None)"
  by (induction k ss rule: empty_slot.induct) auto

lemma empty_slot_Some:
  "empty_slot k ss = Some fd \<Longrightarrow>
     k \<le> fd \<and> fd - k < length ss \<and> ss ! (fd - k) = None \<and> (\<forall>j < fd - k. ss ! j \<noteq> None)"
proof (induction k ss rule: empty_slot.induct)
  case (1 fd)
  then show ?case by simp
next
  case (2 fd ss)
  then show ?case by simp
next
  case (3 k s ss)
  then have ih: "Suc k \<le> fd \<and> fd - Suc k < length ss \<and> ss ! (fd - Suc k) = None
      \<and> (\<forall>j < fd - Suc k. ss ! j \<noteq> None)" by simp
  then have "fd - k = Suc (fd - Suc k)" by arith
  with ih show ?case by (auto simp: nth_Cons split: nat.splits)
qed

lemma empty_slot_least:
  assumes "fd < length ss" and "ss ! fd = None" and "\<forall>j < fd. ss ! j \<noteq> None"
  shows "empty_slot 0 ss = Some fd"
proof (cases "empty_slot 0 ss")
  case None
  with assms(1,2) nth_mem [of fd ss] show ?thesis by (auto simp: empty_slot_None)
next
  case (Some fd')
  from empty_slot_Some [OF Some]
  have a: "fd' < length ss" "ss ! fd' = None" "\<forall>j < fd'. ss ! j \<noteq> None" by auto
  have "fd' = fd"
  proof (rule ccontr)
    assume "fd' \<noteq> fd"
    then consider "fd' < fd" | "fd < fd'" by arith
    then show False using a assms by cases auto
  qed
  with Some show ?thesis by simp
qed

lemma Socket_valid:
  "valid_args nd domain stype proto \<Longrightarrow>
   Socket nd domain stype proto d =
     (case empty_slot 0 (sockets d) of
        None \<Rightarrow> ((- 1, Some ErrNoMoreSockets), d)
      | Some fd \<Rightarrow> ((int fd, None), d\<lparr>sockets := (sockets d)[fd := Some (new_socket proto)]\<rparr>))"
  by (auto simp: Socket_def valid_args_def)

text \<open>
  C8: with valid arguments \<open>Socket\<close> returns the lowest empty slot as the descriptor and
  puts a fresh socket there; with every slot taken it fails with \<open>ErrNoMoreSockets\<close> and
  leaves the state as it was; nine calls on a new device return 0 to 7 and then the
  failure, with all eight sockets still in the table.
\<close>

theorem C8_Socket_lowest_empty_slot:
  assumes "valid_args nd domain stype proto"
  shows "(fd < length (sockets d) \<and> sockets d ! fd = None \<and> (\<forall>j < fd. sockets d ! j \<noteq> None)
            \<longrightarrow> Socket nd domain stype proto d
                 = ((int fd, None), d\<lparr>sockets := (sockets d)[fd := Some (new_socket proto)]\<rparr>))
       \<and> ((\<forall>j < length (sockets d). sockets d ! j \<noteq> None)
            \<longrightarrow> Socket nd domain stype proto d = ((- 1, Some ErrNoMoreSockets), d))
       \<and> Socket_repeat nd domain stype proto 9 NewDevice
           = ([(0, None), (1, None), (2, None), (3, None), (4, None), (5, None), (6, None),
               (7, None), (- 1, Some ErrNoMoreSockets)],
              NewDevice\<lparr>sockets := replicate num_sockets (Some (new_socket proto))\<rparr>)"
proof (intro conjI impI)
  assume "fd < length (sockets d) \<and> sockets d ! fd = None \<and> (\<forall>j < fd. sockets d ! j \<noteq> None)"
  then have "empty_slot 0 (sockets d) = Some fd" by (simp add: empty_slot_least)
  then show "Socket nd domain stype proto d
      = ((int fd, None), d\<lparr>sockets := (sockets d)[fd := Some (new_socket proto)]\<rparr>)"
    by (simp add: Socket_valid [OF assms])
next
  assume "\<forall>j < length (sockets d). sockets d ! j \<noteq> None"
  then have "empty_slot 0 (sockets d) = None"
    by (auto simp: empty_slot_None in_set_conv_nth)
  then show "Socket nd domain stype proto d = ((- 1, Some ErrNoMoreSockets), d)"
    by (simp add: Socket_valid [OF assms])
next
  show "Socket_repeat nd domain stype proto 9 NewDevice
           = ([(0, None), (1, None), (2, None), (3, None), (4, None), (5, None), (6, None),
               (7, None), (- 1, Some ErrNoMoreSockets)],
              NewDevice\<lparr>sockets := replicate num_sockets (Some (new_socket proto))\<rparr>)"
    by (simp add: eval_nat_numeral Socket_valid [OF assms] NewDevice_def num_sockets_def)
qed

theorem C8_Socket_lowest_empty_slot_witness:
  "valid_args nd0 2 1 6
   \<and> Socket nd0 2 1 6
        (NewDevice\<lparr>sockets := [Some (new_socket 6), None, Some (new_socket 6), None, None,
                                 None, None, None]\<rparr>)
      = ((1, None),
         NewDevice\<lparr>sockets := [Some (new_socket 6), Some (new_socket 6), Some (new_socket 6),
                                 None, None, None, None, None]\<rparr>)
   \<and> Socket nd0 2 1 6 (NewDevice\<lparr>sockets := replicate num_sockets (Some (new_socket 17))\<rparr>)
      = ((- 1, Some ErrNoMoreSockets),
         NewDevice\<lparr>sockets := replicate num_sockets (Some (new_socket 17))\<rparr>)
   \<and> fst (Socket_repeat nd0 2 1 6 9 NewDevice)
      = [(0, None), (1, None), (2, None), (3, None), (4, None), (5, None), (6, None),
         (7, None), (- 1, Some ErrNoMoreSockets)]"
proof -
  have v: "valid_args nd0 2 1 6" by (simp add: valid_args_def nd0_def)
  have a: "Socket nd0 2 1 6
        (NewDevice\<lparr>sockets := [Some (new_socket 6), None, Some (new_socket 6), None, None,
                                 None, None, None]\<rparr>)
      = ((1, None),
         NewDevice\<lparr>sockets := [Some (new_socket 6), Some (new_socket 6), Some (new_socket 6),
                                 None, None, None, None, None]\<rparr>)"
    using C8_Socket_lowest_empty_slot [OF v, of 1
        "NewDevice\<lparr>sockets := [Some (new_socket 6), None, Some (new_socket 6), None, None,
                                  None, None, None]\<rparr>"]
    by simp
  have b: "Socket nd0 2 1 6 (NewDevice\<lparr>sockets := replicate num_sockets (Some (new_socket 17))\<rparr>)
      = ((- 1, Some ErrNoMoreSockets),
         NewDevice\<lparr>sockets := replicate num_sockets (Some (new_socket 17))\<rparr>)"
    using C8_Socket_lowest_empty_slot [OF v, of _
        "NewDevice\<lparr>sockets := replicate num_sockets (Some (new_socket 17))\<rparr>"]
    by simp
  have c: "fst (Socket_repeat nd0 2 1 6 9 NewDevice)
      = [(0, None), (1, None), (2, None), (3, None), (4, None), (5, None), (6, None),
         (7, None), (- 1, Some ErrNoMoreSockets)]"
    using C8_Socket_lowest_empty_slot [OF v] by simp
  show ?thesis using v a b c by simp
qed

section \<open>Socket registry: close and send\<close>

lemma getSocket_slot:
  "getSocket d sockfd = Done (Inr i) \<Longrightarrow>
     sockfd = int i \<and> i < num_sockets \<and> (\<exists>s. sockets d ! i = Some s)"
  by (auto simp: getSocket_def split: if_splits option.splits)


lemma command_returns:
  "0 < timeout \<Longrightarrow>
   \<exists>e w'. command awaited cmd timeout w = Done (e, w')
      \<and> written w' = written w @ [cmd @ CRLF]"
  by (auto simp: command_def uart_Write_def next_arrival_def select_wait_def
           split: list.splits option.splits prod.splits)

text \<open>
  C3, as stated: \<open>Close\<close> frees the slot in every case, also when the delete command
  fails or times out. With a connected socket in slot 0 and a device that never
  answers, \<open>Close\<close> returns "Timed out" and the slot still holds the socket.
\<close>

theorem C3_failed_delete_keeps_slot:
  "Close dev_one 0 quiet_line
     = Done (Some (ErrorText ''Timed out''), dev_one,
             quiet_line\<lparr>written := [''AT+SOCKETDEL=3'' @ CRLF]\<rparr>)
   \<and> sockets dev_one ! 0 \<noteq> None"
  by (simp add: Close_def getSocket_def wrap_int_def intSize_def num_sockets_def dev_one_def
        sock_id3_def new_socket_def execute_def command_def uart_Write_def next_arrival_def
        select_wait_def quiet_line_def)

text \<open>
  C3, amended: for a valid descriptor \<open>Close\<close> returns; it writes the delete command
  \<open>AT+SOCKETDEL=<id>\<close> exactly when the id is not empty, and then returns what \<open>execute\<close>
  returns for it with a timeout of 1000 ms; when it returns no error the slot is nil
  afterwards, and when it returns an error the device state, and with it the slot, is
  as before.
\<close>

theorem C3_Close_frees_slot_unless_delete_fails:
  assumes "length (sockets d) = num_sockets"
    and "getSocket d sockfd = Done (Inr i)"
    and "sockets d ! i = Some s"
  shows "\<exists>e d' w'. Close d sockfd w = Done (e, d', w')
     \<and> (id_str s = [] \<longrightarrow> e = None \<and> w' = w)
     \<and> (id_str s \<noteq> [] \<longrightarrow>
           execute (''AT+SOCKETDEL='' @ id_str s) 1000 w = Done (e, w')
           \<and> written w' = written w @ [''AT+SOCKETDEL='' @ id_str s @ CRLF])
     \<and> (e = None \<longrightarrow> d' = set_socket i None d \<and> sockets d' ! i = None)
     \<and> (e \<noteq> None \<longrightarrow> d' = d)"
proof (cases "id_str s = []")
  case True
  from assms(2) have "i < num_sockets" by (auto dest: getSocket_slot)
  with assms(1) have "sockets (set_socket i None d) ! i = None"
    by (simp add: set_socket_def)
  with True assms show ?thesis by (simp add: Close_def)
next
  case False
  obtain e w' where ex: "execute (''AT+SOCKETDEL='' @ id_str s) 1000 w = Done (e, w')"
    and wr: "written w' = written w @ [(''AT+SOCKETDEL='' @ id_str s) @ CRLF]"
    using command_returns [of 1000 on_ok_or_err "''AT+SOCKETDEL='' @ id_str s" w]
    by (auto simp: execute_def)
  from assms(2) have "i < num_sockets" by (auto dest: getSocket_slot)
  with assms(1) have fr: "sockets (set_socket i None d) ! i = None"
    by (simp add: set_socket_def)
  show ?thesis
  proof (cases e)
    case None
    with False assms ex wr fr show ?thesis by (simp add: Close_def)
  next
    case (Some err)
    with False assms ex wr show ?thesis by (simp add: Close_def)
  qed
qed

theorem C3_Close_frees_slot_unless_delete_fails_witness:
  "length (sockets dev_one) = num_sockets
   \<and> getSocket dev_one 0 = Done (Inr 0)
   \<and> sockets dev_one ! 0 = Some sock_id3
   \<and> id_str sock_id3 \<noteq> []
   \<and> (\<exists>e d' w'. Close dev_one 0 (quiet_line\<lparr>arrivals := [Some (20, SigOk)]\<rparr>) = Done (e, d', w')
        \<and> e = None \<and> sockets d' ! 0 = None
        \<and> written w' = [''AT+SOCKETDEL=3'' @ CRLF])"
proof -
  have a: "length (sockets dev_one) = num_sockets"
    by (simp add: dev_one_def num_sockets_def)
  have b: "getSocket dev_one 0 = Done (Inr 0)"
    by (simp add: getSocket_def wrap_int_def intSize_def num_sockets_def dev_one_def)
  have c: "sockets dev_one ! 0 = Some sock_id3"
    by (simp add: dev_one_def)
  have d: "id_str sock_id3 \<noteq> []"
    by (simp add: sock_id3_def)
  have e: "execute (''AT+SOCKETDEL='' @ id_str sock_id3) 1000 (quiet_line\<lparr>arrivals := [Some (20, SigOk)]\<rparr>)
      = Done (None, quiet_line\<lparr>written := [''AT+SOCKETDEL=3'' @ CRLF]\<rparr>)"
    by (simp add: execute_def command_def uart_Write_def next_arrival_def select_wait_def
          quiet_line_def sock_id3_def)
  from C3_Close_frees_slot_unless_delete_fails [OF a b c, of "quiet_line\<lparr>arrivals := [Some (20, SigOk)]\<rparr>"]
  show ?thesis using a b c d e by (auto simp: quiet_line_def sock_id3_def)
qed

text \<open>
  C10: \<open>Send\<close> returns the same result and leaves the same transport for any two
  deadlines. Both waits use 1000 ms: with the ready marker after \<open>t1\<close> ms and the \<open>OK\<close>
  after \<open>t2\<close> ms, the call succeeds exactly when both are below 1000, whatever the
  deadline is; the payload is written exactly when the first wait succeeds.
\<close>

theorem C10_Send_ignores_deadline:
  "Send d sockfd b flags deadline1 w = Send d sockfd b flags deadline2 w
   \<and> (getSocket d sockfd = Done (Inr i) \<and> sockets d ! i = Some s
        \<and> write_results w = [] \<and> arrivals w = Some (t1, SigTxReady) # Some (t2, SigOk) # rest
      \<longrightarrow> Send d sockfd b flags deadline1 w
           = Done (if t1 < 1000 \<and> t2 < 1000 then (length b, None)
                   else (0, Some (ErrorText ''Timed out'')),
                   w\<lparr>written := written w
                        @ (''AT+SOCKETSEND='' @ id_str s @ '','' @ Itoa (length b) @ CRLF)
                        # (if t1 < 1000 then [b] else []),
                      arrivals := (if t1 < 1000 then rest else Some (t2, SigOk) # rest)\<rparr>))"
  by (simp add: Send_def send_def command_def uart_Write_def next_arrival_def select_wait_def)

theorem C10_Send_ignores_deadline_witness:
  "getSocket dev_one 0 = Done (Inr 0) \<and> sockets dev_one ! 0 = Some sock_id3
   \<and> Send dev_one 0 ''hello'' 0 0 (quiet_line\<lparr>arrivals := [Some (3, SigTxReady), Some (40, SigOk)]\<rparr>)
      = Send dev_one 0 ''hello'' 0 86400000 (quiet_line\<lparr>arrivals := [Some (3, SigTxReady), Some (40, SigOk)]\<rparr>)
   \<and> Send dev_one 0 ''hello'' 0 0 (quiet_line\<lparr>arrivals := [Some (3, SigTxReady), Some (40, SigOk)]\<rparr>)
      = Done ((5, None), quiet_line\<lparr>written := [''AT+SOCKETSEND=3,5'' @ CRLF, ''hello'']\<rparr>)"
proof -
  have b: "getSocket dev_one 0 = Done (Inr 0)"
    by (simp add: getSocket_def wrap_int_def intSize_def num_sockets_def dev_one_def)
  have c: "sockets dev_one ! 0 = Some sock_id3"
    by (simp add: dev_one_def)
  have w: "write_results (quiet_line\<lparr>arrivals := [Some (3, SigTxReady), Some (40, SigOk)]\<rparr>) = []
      \<and> arrivals (quiet_line\<lparr>arrivals := [Some (3, SigTxReady), Some (40, SigOk)]\<rparr>)
          = Some (3, SigTxReady) # Some (40, SigOk) # []"
    by (simp add: quiet_line_def)
  note inst = C10_Send_ignores_deadline [of dev_one 0 "''hello''" 0 0
      "quiet_line\<lparr>arrivals := [Some (3, SigTxReady), Some (40, SigOk)]\<rparr>" 86400000 0 sock_id3 3 40 "[]"]
  from inst have same: "Send dev_one 0 ''hello'' 0 0 (quiet_line\<lparr>arrivals := [Some (3, SigTxReady), Some (40, SigOk)]\<rparr>)
      = Send dev_one 0 ''hello'' 0 86400000 (quiet_line\<lparr>arrivals := [Some (3, SigTxReady), Some (40, SigOk)]\<rparr>)"
    by (rule conjunct1)
  from inst have "getSocket dev_one 0 = Done (Inr 0) \<and> sockets dev_one ! 0 = Some sock_id3
        \<and> write_results (quiet_line\<lparr>arrivals := [Some (3, SigTxReady), Some (40, SigOk)]\<rparr>) = []
        \<and> arrivals (quiet_line\<lparr>arrivals := [Some (3, SigTxReady), Some (40, SigOk)]\<rparr>)
            = Some (3, SigTxReady) # Some (40, SigOk) # []
      \<longrightarrow> Send dev_one 0 ''hello'' 0 0 (quiet_line\<lparr>arrivals := [Some (3, SigTxReady), Some (40, SigOk)]\<rparr>)
           = Done (if (3::nat) < 1000 \<and> (40::nat) < 1000 then (length ''hello'', None)
                   else (0, Some (ErrorText ''Timed out'')),
                   (quiet_line\<lparr>arrivals := [Some (3, SigTxReady), Some (40, SigOk)]\<rparr>)
                   \<lparr>written := written (quiet_line\<lparr>arrivals := [Some (3, SigTxReady), Some (40, SigOk)]\<rparr>)
                        @ (''AT+SOCKETSEND='' @ id_str sock_id3 @ '','' @ Itoa (length ''hello'') @ CRLF)
                        # (if (3::nat) < 1000 then [''hello''] else []),
                      arrivals := (if (3::nat) < 1000 then [] else Some (40, SigOk) # [])\<rparr>)"
    by (rule conjunct2)
  with b c w have "Send dev_one 0 ''hello'' 0 0 (quiet_line\<lparr>arrivals := [Some (3, SigTxReady), Some (40, SigOk)]\<rparr>)
           = Done (if (3::nat) < 1000 \<and> (40::nat) < 1000 then (length ''hello'', None)
                   else (0, Some (ErrorText ''Timed out'')),
                   (quiet_line\<lparr>arrivals := [Some (3, SigTxReady), Some (40, SigOk)]\<rparr>)
                   \<lparr>written := written (quiet_line\<lparr>arrivals := [Some (3, SigTxReady), Some (40, SigOk)]\<rparr>)
                        @ (''AT+SOCKETSEND='' @ id_str sock_id3 @ '','' @ Itoa (length ''hello'') @ CRLF)
                        # (if (3::nat) < 1000 then [''hello''] else []),
                      arrivals := (if (3::nat) < 1000 then [] else Some (40, SigOk) # [])\<rparr>)"
    by blast
  also have "\<dots> = Done ((5, None), quiet_line\<lparr>written := [''AT+SOCKETSEND=3,5'' @ CRLF, ''hello'']\<rparr>)"
    by (simp add: quiet_line_def sock_id3_def)
  finally have res: "Send dev_one 0 ''hello'' 0 0 (quiet_line\<lparr>arrivals := [Some (3, SigTxReady), Some (40, SigOk)]\<rparr>)
      = Done ((5, None), quiet_line\<lparr>written := [''AT+SOCKETSEND=3,5'' @ CRLF, ''hello'']\<rparr>)" .
  from b c same res show ?thesis by blast
qed

section \<open>Parser: bytes, lines and the buffer\<close>

lemma CR_neq_LF: "CR \<noteq> LF" by (simp add: CR_def LF_def)

lemma HasPrefix_append [simp]: "HasPrefix (p @ r) p"
  by (simp add: HasPrefix_def)

lemma HasSuffix_CRLF_iff: "HasSuffix c CRLF \<longleftrightarrow> (\<exists>q. c = q @ [CR, LF])"
proof
  assume "HasSuffix c CRLF"
  then have "2 \<le> length c" and "drop (length c - 2) c = [CR, LF]"
    by (simp_all add: HasSuffix_def CRLF_def numeral_2_eq_2)
  then have "c = take (length c - 2) c @ [CR, LF]"
    by (metis append_take_drop_id)
  then show "\<exists>q. c = q @ [CR, LF]" ..
next
  assume "\<exists>q. c = q @ [CR, LF]"
  then show "HasSuffix c CRLF" by (auto simp: HasSuffix_def CRLF_def)
qed






lemma processUART_sofar:
  assumes "pos d \<le> length (buf d)"
  shows "processUART d =
     (if sofar d = [CHR ''>''] then Done ([Signal SigTxReady], d\<lparr>pos := 0\<rparr>)
      else if \<not> HasSuffix (sofar d) CRLF then Done ([], d)
      else processLine (take (length (sofar d) - 2) (sofar d)) d)"
proof -
  have len: "length (sofar d) = pos d" using assms by (simp add: sofar_def)
  have "(pos d = 1 \<and> buf d ! 0 = CHR ''>'') \<longleftrightarrow> sofar d = [CHR ''>'']"
  proof
    assume a: "pos d = 1 \<and> buf d ! 0 = CHR ''>''"
    with assms have "buf d \<noteq> []" by auto
    with a show "sofar d = [CHR ''>'']"
      by (cases "buf d") (auto simp: sofar_def)
  next
    assume a: "sofar d = [CHR ''>'']"
    with len have "pos d = 1" by simp
    with a show "pos d = 1 \<and> buf d ! 0 = CHR ''>''"
      by (cases "buf d") (auto simp: sofar_def)
  qed
  then show ?thesis
    by (auto simp: processUART_def Let_def sofar_def)
qed

lemma sofar_readByte:
  assumes "pos d < length (buf d)"
  shows "sofar (d\<lparr>buf := (buf d)[pos d := b], pos := pos d + 1\<rparr>) = sofar d @ [b]"
  using assms by (simp add: sofar_def take_Suc_conv_app_nth)




lemma serviceByte_room:
  assumes "pos d < length (buf d)"
  shows "serviceByte b d = processUART (d\<lparr>buf := (buf d)[pos d := b], pos := pos d + 1\<rparr>)"
proof -
  have "after [] r = r" for r :: "(effect list \<times> device) outcome"
    by (cases r) (auto simp: after_def)
  with assms show ?thesis by (simp add: serviceByte_def bufferFull_def readByte_def)
qed

lemma accumulate:
  assumes "pos d + length bs \<le> length (buf d)"
    and "\<And>k d'. 0 < k \<Longrightarrow> k \<le> length bs \<Longrightarrow> pos d' \<le> length (buf d') \<Longrightarrow>
            sofar d' = sofar d @ take k bs \<Longrightarrow> processUART d' = Done ([], d')"
  shows "\<exists>bf. serviceUART bs d = Done ([], d\<lparr>buf := bf, pos := pos d + length bs\<rparr>)
           \<and> length bf = length (buf d) \<and> take (pos d + length bs) bf = sofar d @ bs"
  using assms
proof (induction bs arbitrary: d)
  case Nil
  have "d\<lparr>buf := buf d, pos := pos d\<rparr> = d" by simp
  then show ?case by (auto simp: sofar_def intro!: exI [of _ "buf d"])
next
  case (Cons b bs)
  let ?d1 = "d\<lparr>buf := (buf d)[pos d := b], pos := pos d + 1\<rparr>"
  from Cons.prems(1) have room: "pos d < length (buf d)" by simp
  have s1: "sofar ?d1 = sofar d @ [b]" using room by (rule sofar_readByte)
  have p1: "pos ?d1 \<le> length (buf ?d1)" using room by simp
  have step: "serviceByte b d = Done ([], ?d1)"
    using Cons.prems(2) [of 1 ?d1] p1 s1 by (simp add: serviceByte_room [OF room])
  have "\<exists>bf. serviceUART bs ?d1 = Done ([], ?d1\<lparr>buf := bf, pos := pos ?d1 + length bs\<rparr>)
           \<and> length bf = length (buf ?d1) \<and> take (pos ?d1 + length bs) bf = sofar ?d1 @ bs"
  proof (rule Cons.IH)
    show "pos ?d1 + length bs \<le> length (buf ?d1)" using Cons.prems(1) by simp
  next
    fix k d'
    assume k: "0 < k" "k \<le> length bs" and d': "pos d' \<le> length (buf d')"
      and sf: "sofar d' = sofar ?d1 @ take k bs"
    from sf s1 have "sofar d' = sofar d @ take (Suc k) (b # bs)" by simp
    with Cons.prems(2) [of "Suc k" d'] k d' show "processUART d' = Done ([], d')" by simp
  qed
  then obtain bf where
    r: "serviceUART bs ?d1 = Done ([], ?d1\<lparr>buf := bf, pos := pos ?d1 + length bs\<rparr>)"
    and l: "length bf = length (buf ?d1)"
    and t: "take (pos ?d1 + length bs) bf = sofar ?d1 @ bs" by blast
  have "serviceUART (b # bs) d = Done ([], d\<lparr>buf := bf, pos := pos d + length (b # bs)\<rparr>)"
    using step r by (simp add: after_def)
  moreover have "length bf = length (buf d)" using l by simp
  moreover have "take (pos d + length (b # bs)) bf = sofar d @ b # bs" using t s1 by simp
  ultimately show ?case by blast
qed

lemma serviceUART_append:
  "serviceUART (xs @ ys) d =
     (case serviceUART xs d of
        Done (es, d') \<Rightarrow> after es (serviceUART ys d')
      | Panics p \<Rightarrow> Panics p
      | Blocks \<Rightarrow> Blocks)"
proof (induction xs arbitrary: d)
  case Nil
  show ?case by (cases "serviceUART ys d") (auto simp: after_def)
next
  case (Cons x xs)
  show ?case
  proof (cases "serviceByte x d")
    case (Done r)
    obtain es d1 where r: "r = (es, d1)" by (cases r)
    show ?thesis
    proof (cases "serviceUART xs d1")
      case (Done r2)
      obtain es2 d2 where r2: "r2 = (es2, d2)" by (cases r2)
      show ?thesis
        using \<open>serviceByte x d = Done r\<close> r Done r2 Cons.IH [of d1]
        by (cases "serviceUART ys d2") (auto simp: after_def)
    next
      case (Panics p)
      then show ?thesis using \<open>serviceByte x d = Done r\<close> r Cons.IH [of d1]
        by (simp add: after_def)
    next
      case Blocks
      then show ?thesis using \<open>serviceByte x d = Done r\<close> r Cons.IH [of d1]
        by (simp add: after_def)
    qed
  next
    case (Panics p)
    then show ?thesis by simp
  next
    case Blocks
    then show ?thesis by simp
  qed
qed

lemma after_Nil [simp]: "after [] r = r"
  by (cases r) (auto simp: after_def)

lemma after_Done [simp]: "after es (Done (es', d)) = Done (es @ es', d)"
  by (simp add: after_def)

lemma after_after: "after es (after es' r) = after (es @ es') r"
  by (cases r) (auto simp: after_def)

lemma serviceByte_full:
  assumes "length (buf d) \<le> pos d" and "0 < length (buf d)"
  shows "serviceByte b d
         = after [Print ''Trying to write past buffer''] (serviceByte b (d\<lparr>pos := 0\<rparr>))"
  using assms by (simp add: serviceByte_def bufferFull_def)

lemma serviceUART_full:
  assumes "length (buf d) \<le> pos d" and "0 < length (buf d)"
  shows "serviceUART (b # bs) d
         = after [Print ''Trying to write past buffer''] (serviceUART (b # bs) (d\<lparr>pos := 0\<rparr>))"
proof (cases "serviceByte b (d\<lparr>pos := 0\<rparr>)")
  case (Done r)
  obtain es d1 where "r = (es, d1)" by (cases r)
  with Done show ?thesis
    by (simp add: serviceByte_full [OF assms] after_after)
next
  case (Panics p)
  then show ?thesis by (simp add: serviceByte_full [OF assms] after_def)
next
  case Blocks
  then show ?thesis by (simp add: serviceByte_full [OF assms] after_def)
qed

lemma feed_terminated:
  assumes start: "pos d = 0"
    and room: "length (body @ CRLF) \<le> length (buf d)"
    and quiet: "\<And>k d'. 0 < k \<Longrightarrow> k < length (body @ CRLF) \<Longrightarrow> pos d' \<le> length (buf d') \<Longrightarrow>
            sofar d' = take k (body @ CRLF) \<Longrightarrow> processUART d' = Done ([], d')"
  shows "\<exists>bf. length bf = length (buf d)
           \<and> serviceUART (body @ CRLF) d = processLine body (d\<lparr>buf := bf, pos := length body + 2\<rparr>)"
proof -
  define st where "st = body @ CRLF"
  define n where "n = length st - 1"
  have sf0: "sofar d = []" using start by (simp add: sofar_def)
  have split: "st = take n st @ [LF]" by (simp add: st_def n_def CRLF_def)
  have n: "n < length st" "n = length body + 1" by (simp_all add: st_def n_def CRLF_def)
  have ln: "length (take n st) = n" using n by simp
  have "\<exists>bf. serviceUART (take n st) d
            = Done ([], d\<lparr>buf := bf, pos := pos d + length (take n st)\<rparr>)
         \<and> length bf = length (buf d)
         \<and> take (pos d + length (take n st)) bf = sofar d @ take n st"
  proof (rule accumulate)
    show "pos d + length (take n st) \<le> length (buf d)"
      using start room n by (simp add: st_def)
  next
    fix j d'
    assume j: "0 < j" "j \<le> length (take n st)" and d': "pos d' \<le> length (buf d')"
      and sf: "sofar d' = sofar d @ take j (take n st)"
    from j n have jk: "j < length st" "min j n = j" by simp_all
    have "take j (take n st) = take j st" using jk by (simp only: take_take)
    with sf sf0 have "sofar d' = take j st" by simp
    with j(1) jk(1) d' show "processUART d' = Done ([], d')"
      unfolding st_def by (intro quiet [where k = j])
  qed
  then obtain bf where
    run: "serviceUART (take n st) d = Done ([], d\<lparr>buf := bf, pos := n\<rparr>)"
    and lbf: "length bf = length (buf d)" and tbf: "take n bf = take n st"
    unfolding ln start sf0 by auto
  define d1 where "d1 = d\<lparr>buf := bf, pos := n\<rparr>"
  define d2 where "d2 = d1\<lparr>buf := (buf d1)[pos d1 := LF], pos := pos d1 + 1\<rparr>"
  have room1: "pos d1 < length (buf d1)" using room lbf n by (simp add: d1_def st_def)
  have sf1: "sofar d1 = take n st" using tbf by (simp add: sofar_def d1_def)
  have "sofar d2 = sofar d1 @ [LF]" unfolding d2_def by (rule sofar_readByte [OF room1])
  with sf1 split have sf2: "sofar d2 = st" by simp
  have p2: "pos d2 \<le> length (buf d2)" using room1 by (simp add: d2_def)
  have ne: "sofar d2 \<noteq> [CHR ''>'']" using sf2 by (simp add: st_def CRLF_def)
  have suf: "HasSuffix (sofar d2) CRLF" using sf2 by (simp add: HasSuffix_def st_def)
  have line: "take (length (sofar d2) - 2) (sofar d2) = body"
    using sf2 by (simp add: CRLF_def st_def)
  have d2eq: "d2 = d\<lparr>buf := bf[n := LF], pos := length body + 2\<rparr>"
    using n by (simp add: d2_def d1_def)
  have "serviceByte LF d1 = processUART d2"
    unfolding d2_def by (rule serviceByte_room [OF room1])
  also have "\<dots> = processLine body d2"
    using ne suf line by (simp add: processUART_sofar [OF p2])
  finally have "serviceUART (take n st @ [LF]) d = processLine body d2"
    using run by (simp add: serviceUART_append d1_def split: outcome.splits)
  with split have "serviceUART st d = processLine body d2" by simp
  moreover have "length (bf[n := LF]) = length (buf d)" using lbf by simp
  ultimately show ?thesis unfolding st_def d2eq by blast
qed

lemma plain_prefix_quiet:
  assumes lf: "LF \<notin> set line" and gt: "line \<noteq> [] \<longrightarrow> hd line \<noteq> CHR ''>''"
    and k: "0 < k" "k < length (line @ CRLF)"
    and d: "pos d \<le> length (buf d)"
    and sf: "sofar d = take k (line @ CRLF)"
  shows "processUART d = Done ([], d)"
proof -
  have k': "k \<le> length (line @ [CR])" using k by (simp add: CRLF_def)
  have "take k (line @ CRLF) = take k ((line @ [CR]) @ [LF])" by (simp add: CRLF_def)
  also have "\<dots> = take k (line @ [CR])"
  proof -
    have "k - length (line @ [CR]) = 0" using k' by simp
    then show ?thesis by (simp only: take_append take_0 append_Nil2)
  qed
  finally have sf': "sofar d = take k (line @ [CR])" using sf by simp
  have "set (sofar d) \<subseteq> set (line @ [CR])" unfolding sf' by (rule set_take_subset)
  then have nolf: "LF \<notin> set (sofar d)" using lf CR_neq_LF by auto
  have nosuf: "\<not> HasSuffix (sofar d) CRLF"
  proof
    assume "HasSuffix (sofar d) CRLF"
    then obtain q where "sofar d = q @ [CR, LF]" by (auto simp: HasSuffix_CRLF_iff)
    with nolf show False by simp
  qed
  have "hd (take k (line @ [CR])) \<noteq> CHR ''>''"
    using k(1) gt by (cases k; cases line) (simp_all add: CR_def)
  then have "sofar d \<noteq> [CHR ''>'']" unfolding sf' by auto
  with nosuf d show ?thesis by (simp add: processUART_sofar)
qed

lemma feed_line:
  assumes "pos d = 0" and "length (line @ CRLF) \<le> length (buf d)"
    and "LF \<notin> set line" and "line \<noteq> [] \<longrightarrow> hd line \<noteq> CHR ''>''"
  shows "\<exists>bf. length bf = length (buf d)
           \<and> serviceUART (line @ CRLF) d = processLine line (d\<lparr>buf := bf, pos := length line + 2\<rparr>)"
  using assms(1,2)
proof (rule feed_terminated)
  fix k d'
  assume "0 < k" "k < length (line @ CRLF)" "pos d' \<le> length (buf d')"
    "sofar d' = take k (line @ CRLF)"
  with assms(3,4) show "processUART d' = Done ([], d')"
    by (intro plain_prefix_quiet [where k = k and line = line])
qed


section \<open>Parser: length-framed events\<close>









section \<open>Parser: terminal markers and plain lines\<close>

lemma handle_last_line:
  "handle event d = Done (es, d') \<Longrightarrow> last_line d' = last_line d"
  by (auto simp: handle_def rx_close_def set_rx_def
           split: if_splits outcome.splits option.splits)

lemma socketDown_last_line:
  "socketDown line d = Done (es, d') \<Longrightarrow> last_line d' = last_line d"
  by (auto simp: socketDown_def rx_send_def set_rx_def Let_def
           split: if_splits outcome.splits option.splits)

lemma HasPrefix_shorter: "HasPrefix s (p @ q) \<Longrightarrow> HasPrefix s p"
proof -
  assume "HasPrefix s (p @ q)"
  then have "take (length p + length q) s = p @ q" by (simp add: HasPrefix_def)
  then have "take (length p) (take (length p + length q) s) = p" by simp
  then have "take (length p) s = p" by (simp only: take_take) simp
  then show ?thesis by (simp add: HasPrefix_def)
qed

lemma HasPrefix_SocketDown_EVENT:
  "HasPrefix line ''+EVENT:SocketDown'' \<Longrightarrow> HasPrefix line ''+EVENT:''"
  using HasPrefix_shorter [of line "''+EVENT:''" "''SocketDown''"] by simp

text \<open>
  C9: the buffer holds a line and its CR LF. A line that begins with \<open>OK\<close> signals success
  and leaves the last line as it was; a line that begins with \<open>ERROR\<close> signals failure,
  with the text decoded from the last line; a non-empty line with none of the prefixes
  \<open>OK\<close>, \<open>ERROR\<close> and \<open>+EVENT:\<close> becomes the last line; and whenever the last line
  changes, the line had none of these prefixes.
\<close>

theorem C9_terminal_markers_by_prefix:
  assumes "pos d \<le> length (buf d)" and "sofar d = line @ CRLF"
  shows "(HasPrefix line ''OK''
            \<longrightarrow> processUART d = Done ([Signal SigOk], d\<lparr>pos := 0\<rparr>))
       \<and> (HasPrefix line ''ERROR''
            \<longrightarrow> processUART d = Done ([Signal (SigErr (getErrStr (last_line d)))], d\<lparr>pos := 0\<rparr>))
       \<and> (\<not> HasPrefix line ''OK'' \<and> \<not> HasPrefix line ''ERROR'' \<and> \<not> HasPrefix line ''+EVENT:''
            \<and> line \<noteq> []
            \<longrightarrow> processUART d = Done ([], d\<lparr>pos := 0, last_line := line\<rparr>))
       \<and> (\<forall>es d'. processUART d = Done (es, d') \<and> last_line d' \<noteq> last_line d
            \<longrightarrow> \<not> HasPrefix line ''OK'' \<and> \<not> HasPrefix line ''ERROR''
                \<and> \<not> HasPrefix line ''+EVENT:'' \<and> last_line d' = line)"
proof -
  have ne: "sofar d \<noteq> [CHR ''>'']" using assms(2) by (simp add: CRLF_def)
  have suf: "HasSuffix (sofar d) CRLF" using assms(2) by (simp add: HasSuffix_def)
  have ln: "take (length (sofar d) - 2) (sofar d) = line"
    using assms(2) by (simp add: CRLF_def)
  have pu: "processUART d = processLine line d"
    using ne suf ln by (simp add: processUART_sofar [OF assms(1)])
  have ok_no_ev: "HasPrefix line ''OK'' \<Longrightarrow> \<not> HasPrefix line ''+EVENT:SocketDown''"
    by (cases line) (auto simp: HasPrefix_def)
  have err_no_ev: "HasPrefix line ''ERROR'' \<Longrightarrow> \<not> HasPrefix line ''+EVENT:SocketDown''"
    by (cases line) (auto simp: HasPrefix_def)
  have err_no_ok: "HasPrefix line ''ERROR'' \<Longrightarrow> \<not> HasPrefix line ''OK''"
    by (cases line) (auto simp: HasPrefix_def)
  have c1: "HasPrefix line ''OK''
      \<longrightarrow> processUART d = Done ([Signal SigOk], d\<lparr>pos := 0\<rparr>)"
    using ok_no_ev by (simp add: pu processLine_def)
  have c2: "HasPrefix line ''ERROR''
      \<longrightarrow> processUART d = Done ([Signal (SigErr (getErrStr (last_line d)))], d\<lparr>pos := 0\<rparr>)"
    using err_no_ev err_no_ok by (simp add: pu processLine_def)
  have c3: "\<not> HasPrefix line ''OK'' \<and> \<not> HasPrefix line ''ERROR'' \<and> \<not> HasPrefix line ''+EVENT:''
      \<and> line \<noteq> []
      \<longrightarrow> processUART d = Done ([], d\<lparr>pos := 0, last_line := line\<rparr>)"
    using HasPrefix_SocketDown_EVENT [of line] by (auto simp: pu processLine_def)
  have c4: "\<forall>es d'. processUART d = Done (es, d') \<and> last_line d' \<noteq> last_line d
      \<longrightarrow> \<not> HasPrefix line ''OK'' \<and> \<not> HasPrefix line ''ERROR''
          \<and> \<not> HasPrefix line ''+EVENT:'' \<and> last_line d' = line"
  proof (intro allI impI)
    fix es d'
    assume a: "processUART d = Done (es, d') \<and> last_line d' \<noteq> last_line d"
    then have r: "processLine line d = Done (es, d')" and ch: "last_line d' \<noteq> last_line d"
      by (simp_all add: pu)
    have n1: "\<not> HasPrefix line ''+EVENT:SocketDown''"
    proof
      assume "HasPrefix line ''+EVENT:SocketDown''"
      with r have "socketDown line d = Done (es, d')" by (simp add: processLine_def)
      with ch show False by (simp add: socketDown_last_line)
    qed
    have n2: "\<not> HasPrefix line ''OK''" using r ch n1 by (auto simp: processLine_def)
    have n3: "\<not> HasPrefix line ''ERROR''" using r ch n1 n2 by (auto simp: processLine_def)
    have n4: "\<not> HasPrefix line ''+EVENT:''"
    proof
      assume "HasPrefix line ''+EVENT:''"
      with r n1 n2 n3 have "handle (drop (length ''+EVENT:'') line) (d\<lparr>pos := 0\<rparr>) = Done (es, d')"
        by (simp add: processLine_def)
      then have "last_line d' = last_line (d\<lparr>pos := 0\<rparr>)" by (rule handle_last_line)
      with ch show False by simp
    qed
    have "last_line d' = line"
      using r ch n1 n2 n3 n4 by (auto simp: processLine_def split: if_splits)
    with n2 n3 n4 show "\<not> HasPrefix line ''OK'' \<and> \<not> HasPrefix line ''ERROR''
          \<and> \<not> HasPrefix line ''+EVENT:'' \<and> last_line d' = line" by simp
  qed
  from c1 c2 c3 c4 show ?thesis by blast
qed

theorem C9_terminal_markers_by_prefix_witness:
  "pos (dev_line ''OKAY'') \<le> length (buf (dev_line ''OKAY''))
   \<and> sofar (dev_line ''OKAY'') = ''OKAY'' @ CRLF
   \<and> HasPrefix ''OKAY'' ''OK''
   \<and> processUART (dev_line ''OKAY'') = Done ([Signal SigOk], (dev_line ''OKAY'')\<lparr>pos := 0\<rparr>)
   \<and> last_line ((dev_line ''OKAY'')\<lparr>pos := 0\<rparr>) = []"
proof -
  have a: "pos (dev_line ''OKAY'') \<le> length (buf (dev_line ''OKAY''))"
    by (simp add: dev_line_def NewDevice_def buf_size_def CRLF_def)
  have b: "sofar (dev_line ''OKAY'') = ''OKAY'' @ CRLF"
    by (simp add: dev_line_def sofar_def CRLF_def)
  have c: "HasPrefix ''OKAY'' ''OK''" by (simp add: HasPrefix_def)
  have d: "last_line ((dev_line ''OKAY'')\<lparr>pos := 0\<rparr>) = []"
    by (simp add: dev_line_def NewDevice_def)
  from C9_terminal_markers_by_prefix [OF a b] c
  have "processUART (dev_line ''OKAY'') = Done ([Signal SigOk], (dev_line ''OKAY'')\<lparr>pos := 0\<rparr>)"
    by blast
  with a b c d show ?thesis by blast
qed


section \<open>Reader task: a full buffer\<close>

text \<open>
  C6, as stated: a full buffer is surfaced as a framing error to the command that is
  waiting. After 1500 zero bytes the buffer is full; when the answer \<open>OK\<close> to a waiting
  \<open>execute("AT", 1000)\<close> arrives, the reader prints, resets \<open>pos\<close> and signals \<open>ok\<close>, and
  \<open>execute\<close> returns success.
\<close>

theorem C6_overflow_is_not_signalled:
  "serviceUART (replicate buf_size (CHR 0x00)) NewDevice = Done ([], dev_full)
   \<and> observe (serviceUART (''OK'' @ CRLF) dev_full)
      = Done ([Print ''Trying to write past buffer'', Signal SigOk], 0, [], sockets NewDevice)
   \<and> execute ''AT'' 1000
        (quiet_line\<lparr>arrivals := [offered 4 (serviceUART (''OK'' @ CRLF) dev_full)]\<rparr>)
      = Done (None, quiet_line\<lparr>written := [''AT'' @ CRLF]\<rparr>)"
proof -
  let ?z = "replicate buf_size (CHR 0x00)"
  have "\<exists>bf. serviceUART ?z NewDevice
            = Done ([], NewDevice\<lparr>buf := bf, pos := pos NewDevice + length ?z\<rparr>)
         \<and> length bf = length (buf NewDevice)
         \<and> take (pos NewDevice + length ?z) bf = sofar NewDevice @ ?z"
  proof (rule accumulate)
    show "pos NewDevice + length ?z \<le> length (buf NewDevice)" by (simp add: NewDevice_def)
  next
    fix k d'
    assume k: "0 < k" "k \<le> length ?z" and d': "pos d' \<le> length (buf d')"
      and sf: "sofar d' = sofar NewDevice @ take k ?z"
    have sf': "sofar d' = replicate k (CHR 0x00)"
      using sf k by (simp add: sofar_def NewDevice_def min_absorb2)
    have "\<not> HasSuffix (sofar d') CRLF"
    proof
      assume "HasSuffix (sofar d') CRLF"
      then obtain q where "replicate k (CHR 0x00) = q @ [CR, LF]"
        unfolding sf' by (auto simp: HasSuffix_CRLF_iff)
      then have "LF \<in> set (replicate k (CHR 0x00))" by simp
      then show False by (simp add: LF_def)
    qed
    moreover have "sofar d' \<noteq> [CHR ''>'']"
    proof
      assume "sofar d' = [CHR ''>'']"
      then have "CHR ''>'' \<in> set (replicate k (CHR 0x00))" unfolding sf' by simp
      then show False by simp
    qed
    ultimately show "processUART d' = Done ([], d')" using d' by (simp add: processUART_sofar)
  qed
  then obtain bf where r: "serviceUART ?z NewDevice = Done ([], NewDevice\<lparr>buf := bf, pos := buf_size\<rparr>)"
    and l: "length bf = buf_size" and t: "take buf_size bf = ?z"
    by (auto simp: NewDevice_def sofar_def)
  from l t have "bf = ?z" by simp
  with r have c1: "serviceUART ?z NewDevice = Done ([], dev_full)"
    by (simp add: dev_full_def NewDevice_def)
  have full: "length (buf dev_full) \<le> pos dev_full" "0 < length (buf dev_full)"
    by (simp_all add: dev_full_def NewDevice_def buf_size_def)
  have reset: "dev_full\<lparr>pos := 0\<rparr> = NewDevice" by (simp add: dev_full_def NewDevice_def)
  have "\<exists>bf. length bf = length (buf NewDevice)
      \<and> serviceUART (''OK'' @ CRLF) NewDevice
          = processLine ''OK'' (NewDevice\<lparr>buf := bf, pos := length ''OK'' + 2\<rparr>)"
    by (rule feed_line) (simp_all add: NewDevice_def buf_size_def CRLF_def LF_def)
  then obtain bf' where
    "serviceUART (''OK'' @ CRLF) NewDevice
       = processLine ''OK'' (NewDevice\<lparr>buf := bf', pos := length ''OK'' + 2\<rparr>)"
    by blast
  then have ok: "serviceUART (''OK'' @ CRLF) NewDevice
      = Done ([Signal SigOk], NewDevice\<lparr>buf := bf', pos := 0\<rparr>)"
    by (simp add: processLine_def HasPrefix_def)
  have "serviceUART (''OK'' @ CRLF) dev_full
      = after [Print ''Trying to write past buffer''] (serviceUART (''OK'' @ CRLF) (dev_full\<lparr>pos := 0\<rparr>))"
    using serviceUART_full [OF full, of "CHR ''O''" "''K'' @ CRLF"] by simp
  with ok reset have run: "serviceUART (''OK'' @ CRLF) dev_full
      = Done ([Print ''Trying to write past buffer'', Signal SigOk], NewDevice\<lparr>buf := bf', pos := 0\<rparr>)"
    by simp
  have c2: "observe (serviceUART (''OK'' @ CRLF) dev_full)
      = Done ([Print ''Trying to write past buffer'', Signal SigOk], 0, [], sockets NewDevice)"
    unfolding run by (simp add: observe_def NewDevice_def)
  have c3: "execute ''AT'' 1000
        (quiet_line\<lparr>arrivals := [offered 4 (serviceUART (''OK'' @ CRLF) dev_full)]\<rparr>)
      = Done (None, quiet_line\<lparr>written := [''AT'' @ CRLF]\<rparr>)"
    unfolding run
    by (simp add: offered_def execute_def command_def uart_Write_def next_arrival_def
          select_wait_def quiet_line_def)
  from c1 c2 c3 show ?thesis by blast
qed

text \<open>
  C6, amended: when the buffer is full as a byte waits, the reader prints "Trying to
  write past buffer", sets \<open>pos\<close> to zero and then reads the byte into the first place of
  the buffer. Nothing is sent on \<open>ok\<close> or \<open>err\<close>; the only signal that can follow is the
  ready marker, when the byte is \<open>>\<close>, so a waiting command gets nothing from the
  overflow.
\<close>

theorem C6_overflow_resets_and_prints:
  assumes "length (buf d) \<le> pos d" and "0 < length (buf d)"
  shows "bufferFull d = ([Print ''Trying to write past buffer''], d\<lparr>pos := 0\<rparr>)
       \<and> serviceByte b d
          = Done (Print ''Trying to write past buffer''
                    # (if b = CHR ''>'' then [Signal SigTxReady] else []),
                  d\<lparr>buf := (buf d)[0 := b], pos := (if b = CHR ''>'' then 0 else 1)\<rparr>)
       \<and> (b \<noteq> CHR ''>'' \<longrightarrow> offered t (serviceByte b d) = None)"
proof -
  define d1 where "d1 = d\<lparr>pos := 0\<rparr>"
  define d2 where "d2 = d1\<lparr>buf := (buf d1)[pos d1 := b], pos := pos d1 + 1\<rparr>"
  have c1: "bufferFull d = ([Print ''Trying to write past buffer''], d\<lparr>pos := 0\<rparr>)"
    using assms by (simp add: bufferFull_def)
  have room: "pos d1 < length (buf d1)" using assms(2) by (simp add: d1_def)
  have "sofar d2 = sofar d1 @ [b]" unfolding d2_def by (rule sofar_readByte [OF room])
  then have sf: "sofar d2 = [b]" by (simp add: sofar_def d1_def)
  have p2: "pos d2 \<le> length (buf d2)" using assms(2) by (simp add: d2_def d1_def Suc_le_eq)
  have ns: "\<not> HasSuffix [b] CRLF" by (simp add: HasSuffix_def CRLF_def)
  have "serviceByte b d1 = processUART d2"
    unfolding d2_def by (rule serviceByte_room [OF room])
  also have "\<dots> = (if b = CHR ''>'' then Done ([Signal SigTxReady], d2\<lparr>pos := 0\<rparr>)
                    else Done ([], d2))"
    using sf ns by (simp add: processUART_sofar [OF p2])
  also have "\<dots> = Done (if b = CHR ''>'' then [Signal SigTxReady] else [],
                        d\<lparr>buf := (buf d)[0 := b], pos := (if b = CHR ''>'' then 0 else 1)\<rparr>)"
    by (simp add: d2_def d1_def)
  finally have "serviceByte b (d\<lparr>pos := 0\<rparr>)
      = Done (if b = CHR ''>'' then [Signal SigTxReady] else [],
              d\<lparr>buf := (buf d)[0 := b], pos := (if b = CHR ''>'' then 0 else 1)\<rparr>)"
    by (simp add: d1_def)
  then have c2: "serviceByte b d
          = Done (Print ''Trying to write past buffer''
                    # (if b = CHR ''>'' then [Signal SigTxReady] else []),
                  d\<lparr>buf := (buf d)[0 := b], pos := (if b = CHR ''>'' then 0 else 1)\<rparr>)"
    by (simp add: serviceByte_full [OF assms])
  have c3: "b \<noteq> CHR ''>'' \<longrightarrow> offered t (serviceByte b d) = None"
    unfolding c2 by (simp add: offered_def)
  from c1 c2 c3 show ?thesis by blast
qed

theorem C6_overflow_resets_and_prints_witness:
  "length (buf dev_full) \<le> pos dev_full \<and> 0 < length (buf dev_full)
   \<and> bufferFull dev_full = ([Print ''Trying to write past buffer''], NewDevice)
   \<and> observe (serviceByte (CHR ''a'') dev_full)
      = Done ([Print ''Trying to write past buffer''], 1, [], sockets NewDevice)
   \<and> offered 0 (serviceByte (CHR ''a'') dev_full) = None"
proof -
  have a: "length (buf dev_full) \<le> pos dev_full" and b: "0 < length (buf dev_full)"
    by (simp_all add: dev_full_def NewDevice_def buf_size_def)
  have reset: "dev_full\<lparr>pos := 0\<rparr> = NewDevice" by (simp add: dev_full_def NewDevice_def)
  note inst = C6_overflow_resets_and_prints [OF a b, of "CHR ''a''" 0]
  from inst have c1: "bufferFull dev_full = ([Print ''Trying to write past buffer''], NewDevice)"
    by (simp add: reset)
  from inst have sb: "serviceByte (CHR ''a'') dev_full
      = Done ([Print ''Trying to write past buffer''],
              dev_full\<lparr>buf := (buf dev_full)[0 := CHR ''a''], pos := 1\<rparr>)"
    by simp
  have c2: "observe (serviceByte (CHR ''a'') dev_full)
      = Done ([Print ''Trying to write past buffer''], 1, [], sockets NewDevice)"
    unfolding sb by (simp add: observe_def dev_full_def NewDevice_def)
  from inst have c3: "offered 0 (serviceByte (CHR ''a'') dev_full) = None" by blast
  from a b c1 c2 c3 show ?thesis by blast
qed

section \<open>Disconnect events\<close>




















section \<open>Receive queues and remainders\<close>



lemma received_Eff [simp]: "received i (map Eff es) = []"
  by (induction es) (simp_all add: received_def)

lemma delivered_Got [simp]: "delivered i (Got fd bs # tr) = delivered i tr"
  by (simp add: delivered_def)

lemma received_Got [simp]:
  "received i (Got fd bs # tr) = (if fd = int i then bs else []) @ received i tr"
  by (simp add: received_def)















section \<open>Reader task: error texts\<close>

text \<open>
  C5: a code that parses and is not in the table should decode to a generic "unknown
  error" text, never to the empty string. The code 6 is not in the table, and a line
  that carries it decodes to the empty string. When the device answers a command with
  the lines \<open>+ERR:6\<close> and \<open>ERROR\<close>, the reader decodes the last plain line, sends the empty
  text on \<open>err\<close>, and \<open>execute\<close> returns an error with an empty message.
\<close>

theorem C5_unmapped_code_decodes_to_empty_string:
  "map_of errStrings 6 = None
   \<and> Atoi ''6'' = Some 6
   \<and> getErrStr ''ERROR:6'' = []
   \<and> getErrStr ''+ERR:6'' = []
   \<and> observe (serviceUART (''+ERR:6'' @ CRLF @ ''ERROR'' @ CRLF) NewDevice)
      = Done ([Signal (SigErr [])], 0, ''+ERR:6'', sockets NewDevice)
   \<and> execute ''AT'' 1000
        (quiet_line\<lparr>arrivals :=
           [offered 9 (serviceUART (''+ERR:6'' @ CRLF @ ''ERROR'' @ CRLF) NewDevice)]\<rparr>)
      = Done (Some (ErrorText []), quiet_line\<lparr>written := [''AT'' @ CRLF]\<rparr>)"
proof -
  have a: "map_of errStrings 6 = None" by (simp add: errStrings_def)
  have b: "Atoi ''6'' = Some 6" by (simp add: Atoi_def digit_val_def intSize_def)
  have c: "getErrStr ''ERROR:6'' = []" by (simp add: getErrStr_eval)
  have d: "getErrStr ''+ERR:6'' = []" by (simp add: getErrStr_eval)
  have "\<exists>bf. length bf = length (buf NewDevice)
      \<and> serviceUART (''+ERR:6'' @ CRLF) NewDevice
          = processLine ''+ERR:6'' (NewDevice\<lparr>buf := bf, pos := length ''+ERR:6'' + 2\<rparr>)"
    by (rule feed_line) (simp_all add: NewDevice_def buf_size_def CRLF_def LF_def)
  then obtain bf where lbf: "length bf = length (buf NewDevice)"
    and "serviceUART (''+ERR:6'' @ CRLF) NewDevice
          = processLine ''+ERR:6'' (NewDevice\<lparr>buf := bf, pos := length ''+ERR:6'' + 2\<rparr>)"
    by blast
  then have first: "serviceUART (''+ERR:6'' @ CRLF) NewDevice
      = Done ([], NewDevice\<lparr>buf := bf, pos := 0, last_line := ''+ERR:6''\<rparr>)"
    by (simp add: processLine_def HasPrefix_def)
  define d1 where "d1 = NewDevice\<lparr>buf := bf, pos := 0, last_line := ''+ERR:6''\<rparr>"
  have "\<exists>bf'. length bf' = length (buf d1)
      \<and> serviceUART (''ERROR'' @ CRLF) d1
          = processLine ''ERROR'' (d1\<lparr>buf := bf', pos := length ''ERROR'' + 2\<rparr>)"
    using lbf by (intro feed_line) (simp_all add: d1_def NewDevice_def buf_size_def CRLF_def LF_def)
  then obtain bf' where
    "serviceUART (''ERROR'' @ CRLF) d1
       = processLine ''ERROR'' (d1\<lparr>buf := bf', pos := length ''ERROR'' + 2\<rparr>)"
    by blast
  then have second: "serviceUART (''ERROR'' @ CRLF) d1
      = Done ([Signal (SigErr [])], d1\<lparr>buf := bf', pos := 0\<rparr>)"
    using d by (simp add: processLine_def HasPrefix_def d1_def)
  have "serviceUART ((''+ERR:6'' @ CRLF) @ (''ERROR'' @ CRLF)) NewDevice
      = Done ([Signal (SigErr [])], d1\<lparr>buf := bf', pos := 0\<rparr>)"
    using first second unfolding serviceUART_append by (simp add: d1_def)
  then have run: "serviceUART (''+ERR:6'' @ CRLF @ ''ERROR'' @ CRLF) NewDevice
      = Done ([Signal (SigErr [])], d1\<lparr>buf := bf', pos := 0\<rparr>)"
    by simp
  have e: "observe (serviceUART (''+ERR:6'' @ CRLF @ ''ERROR'' @ CRLF) NewDevice)
      = Done ([Signal (SigErr [])], 0, ''+ERR:6'', sockets NewDevice)"
    unfolding run by (simp add: observe_def d1_def)
  have f: "execute ''AT'' 1000
        (quiet_line\<lparr>arrivals :=
           [offered 9 (serviceUART (''+ERR:6'' @ CRLF @ ''ERROR'' @ CRLF) NewDevice)]\<rparr>)
      = Done (Some (ErrorText []), quiet_line\<lparr>written := [''AT'' @ CRLF]\<rparr>)"
    unfolding run
    by (simp add: offered_def execute_def command_def uart_Write_def next_arrival_def
          select_wait_def quiet_line_def)
  from a b c d e f show ?thesis by blast
qed

end
